theory Spec2Isabelle
  imports Main
begin

section \<open>Strings, errors and the file system\<close>

text \<open>
  Python text is a sequence of code points. Paths, messages and report lines are written
  as \<open>string\<close>; the code handed to the executor is a list of code points, because
  whether it can be written to a file depends on code points that a byte string cannot
  hold (lone surrogates).
\<close>

type_synonym pystr = "nat list"

text \<open>
  The exceptions the modelled functions raise or let through, named after their Python
  classes. Those built by the repository carry the message the source formats.
\<close>

datatype error =
    ValueError string
  | FileNotFoundError string
  | IsADirectoryError string
  | FileExistsError
  | UnicodeEncodeError
  | UnicodeDecodeError
  | SpawnError
  | CalledProcessError
  | TomlDecodeError
  | InvalidRequirement string
  | InvalidVersion string
  | TypeError
  | KeyError
  | FormatterCrash

text \<open>\<open>sep.join(xs)\<close>, \<open>s.split(c)\<close> for a one-character separator, and \<open>s.startswith(p)\<close>.\<close>

fun join_str :: "string \<Rightarrow> string list \<Rightarrow> string" where
  "join_str sep [] = []"
| "join_str sep [x] = x"
| "join_str sep (x # y # ys) = x @ sep @ join_str sep (y # ys)"

fun split_on :: "char \<Rightarrow> string \<Rightarrow> string list" where
  "split_on c [] = [[]]"
| "split_on c (x # xs) =
     (if x = c then [] # split_on c xs
      else (case split_on c xs of
              [] \<Rightarrow> [[x]]
            | y # ys \<Rightarrow> (x # y) # ys))"

fun startswith :: "string \<Rightarrow> string \<Rightarrow> bool" where
  "startswith s [] = True"
| "startswith [] (p # ps) = False"
| "startswith (x # xs) (p # ps) = (x = p \<and> startswith xs ps)"

text \<open>
  The file system is a map from the string of an absolute path to what is there. There
  are no symbolic links in it and no permissions: an operation fails only for what is, or
  is not, at its path.
\<close>

datatype node = RegularFile pystr | Directory

type_synonym fs = "string \<rightharpoonup> node"

text \<open>
  \<open>os.remove\<close> and \<open>os.unlink\<close> are the same call: it removes a file and raises for a
  directory or a missing path.
\<close>

definition os_unlink :: "string \<Rightarrow> fs \<Rightarrow> (error + unit) \<times> fs" where
  "os_unlink p d =
     (case d p of
        None \<Rightarrow> (Inl (FileNotFoundError (''[Errno 2] No such file or directory: '' @ p)), d)
      | Some Directory \<Rightarrow> (Inl (IsADirectoryError (''[Errno 21] Is a directory: '' @ p)), d)
      | Some (RegularFile c) \<Rightarrow> (Inr (), d(p := None)))"

section \<open>Paths (pathlib, POSIX flavour)\<close>

text \<open>
  A path is its anchor (empty for a relative path, \<open>/\<close>, or \<open>//\<close> for exactly two leading
  slashes) and its components. Parsing drops empty components and \<open>.\<close>, and keeps \<open>..\<close>.
\<close>

record pure_path =
  anchor :: string
  parts :: "string list"

definition Path :: "string \<Rightarrow> pure_path" where
  "Path s =
     \<lparr>anchor = (if take 2 s = ''//'' \<and> take 3 s \<noteq> ''///'' then ''//''
                else if take 1 s = ''/'' then ''/'' else ''''),
      parts = filter (\<lambda>c. c \<noteq> '''' \<and> c \<noteq> ''.'') (split_on CHR ''/'' s)\<rparr>"

definition str_path :: "pure_path \<Rightarrow> string" where
  "str_path p =
     (if anchor p = '''' \<and> parts p = [] then ''.''
      else anchor p @ join_str ''/'' (parts p))"

text \<open>\<open>a / b\<close>: an absolute right operand replaces the left one.\<close>

definition joinpath :: "pure_path \<Rightarrow> pure_path \<Rightarrow> pure_path" where
  "joinpath a b =
     (if anchor b \<noteq> '''' then b
      else \<lparr>anchor = anchor a, parts = parts a @ parts b\<rparr>)"

text \<open>
  \<open>Path.resolve()\<close> of an absolute path on a file system without symbolic links: \<open>..\<close>
  removes the component before it, and stays at the root when there is none; two leading
  slashes become one. Every path resolved below is absolute, since the workspace root is.
\<close>

fun resolve_parts :: "string list \<Rightarrow> string list \<Rightarrow> string list" where
  "resolve_parts acc [] = acc"
| "resolve_parts acc (c # cs) =
     (if c = ''..'' then resolve_parts (butlast acc) cs
      else resolve_parts (acc @ [c]) cs)"

definition resolve :: "pure_path \<Rightarrow> pure_path" where
  "resolve p = \<lparr>anchor = ''/'', parts = resolve_parts [] (parts p)\<rparr>"

section \<open>FileOperations\<close>

text \<open>
  Every component stores \<open>Path(workspace_root).resolve()\<close> as its \<open>workspace_root\<close>;
  the executor and the project manager derive \<open>venv_path\<close> from it.
\<close>

record workspace =
  workspace_root :: pure_path

type_synonym file_operations = workspace

definition validate_path :: "file_operations \<Rightarrow> string \<Rightarrow> error + pure_path" where
  "validate_path self path =
     (let resolved_path = resolve (joinpath (workspace_root self) (Path path))
      in if \<not> startswith (str_path resolved_path) (str_path (workspace_root self))
         then Inl (ValueError (''Path '' @ path @ '' is outside workspace root''))
         else Inr resolved_path)"

definition is_file :: "fs \<Rightarrow> pure_path \<Rightarrow> bool" where
  "is_file d p =
     (case d (str_path p) of Some (RegularFile c) \<Rightarrow> True | _ \<Rightarrow> False)"

definition delete_file :: "file_operations \<Rightarrow> string \<Rightarrow> fs \<Rightarrow> (error + unit) \<times> fs" where
  "delete_file self path d =
     (case validate_path self path of
        Inl e \<Rightarrow> (Inl e, d)
      | Inr file_path \<Rightarrow>
          if is_file d file_path then os_unlink (str_path file_path) d
          else (Inl (FileNotFoundError (''File not found: '' @ path)), d))"

text \<open>
  What the claims call inside the workspace: the components of the root are a prefix of
  the components of the path.
\<close>

fun inside :: "string list \<Rightarrow> string list \<Rightarrow> bool" where
  "inside [] ps = True"
| "inside (r # rs) [] = False"
| "inside (r # rs) (p # ps) = (r = p \<and> inside rs ps)"

definition within_root :: "pure_path \<Rightarrow> pure_path \<Rightarrow> bool" where
  "within_root root p = inside (parts root) (parts p)"

section \<open>The host: platform, disk, temporary names and child processes\<close>

text \<open>
  What a call finds outside the program. \<open>run_child argv cwd disk\<close> is what spawning
  \<open>argv\<close> in directory \<open>cwd\<close> does: the spawn fails, or the child runs to its end and
  hands back the disk as it left it, its two output streams and its exit status. A stream
  is \<open>None\<close> when its bytes do not decode as text in the host's encoding. A child that
  never ends makes the call that waits for it never return (there is no timeout); such
  children are outside this type. \<open>spawned\<close> records every spawn attempted, with its
  working directory. \<open>win_path_text\<close> is \<open>str(Path(s))\<close> in the Windows flavour of
  pathlib, which is not modelled further.
\<close>

datatype completed =
    SpawnFailed
  | Exited fs "string option" "string option" int

record world =
  os_nt :: bool
  disk :: fs
  temp_stem :: string
  getcwd :: string
  run_child :: "string list \<Rightarrow> string \<Rightarrow> fs \<Rightarrow> completed"
  spawned :: "(string list \<times> string) list"
  win_path_text :: "string \<Rightarrow> string"

text \<open>\<open>str(p)\<close> on the host: Windows joins the components with a backslash.\<close>

definition os_str :: "bool \<Rightarrow> pure_path \<Rightarrow> string" where
  "os_str nt p = (if nt then anchor p @ join_str [CHR 0x5C] (parts p) else str_path p)"

definition pathlib_text :: "world \<Rightarrow> string \<Rightarrow> string" where
  "pathlib_text w s = (if os_nt w then win_path_text w s else str_path (Path s))"

definition exists_path :: "world \<Rightarrow> pure_path \<Rightarrow> bool" where
  "exists_path w p = (disk w (os_str (os_nt w) p) \<noteq> None)"

text \<open>
  Writing text to a file encodes it (UTF-8, strict): a lone surrogate cannot be encoded and
  \<open>write\<close> raises \<open>UnicodeEncodeError\<close>.
\<close>

definition is_surrogate :: "nat \<Rightarrow> bool" where
  "is_surrogate c = (0xD800 \<le> c \<and> c \<le> 0xDFFF)"

definition encodable :: "pystr \<Rightarrow> bool" where
  "encodable code = (filter is_surrogate code = [])"

text \<open>
  \<open>tempfile.NamedTemporaryFile(mode='w', suffix='.py', delete=False)\<close> creates a new, empty
  file under a name that is not in use and ends in \<open>.py\<close>; the host offers the part of
  the name before the suffix.
\<close>

definition temp_name :: "world \<Rightarrow> string" where
  "temp_name w = temp_stem w @ ''.py''"

definition named_temporary_file :: "world \<Rightarrow> error + (string \<times> world)" where
  "named_temporary_file w =
     (case disk w (temp_name w) of
        None \<Rightarrow> Inr (temp_name w, w\<lparr>disk := (disk w)(temp_name w \<mapsto> RegularFile [])\<rparr>)
      | Some n \<Rightarrow> Inl FileExistsError)"

section \<open>CodeExecutor\<close>

type_synonym code_executor = workspace

record execution_result =
  stdout :: string
  stderr :: string
  exit_code :: int

definition venv_path :: "workspace \<Rightarrow> pure_path" where
  "venv_path self = joinpath (workspace_root self) (Path ''.venv'')"

definition python_location :: "bool \<Rightarrow> workspace \<Rightarrow> pure_path" where
  "python_location nt self =
     (if nt then joinpath (joinpath (venv_path self) (Path ''Scripts'')) (Path ''python.exe'')
      else joinpath (joinpath (venv_path self) (Path ''bin'')) (Path ''python''))"

definition interpreter_missing :: "string \<Rightarrow> error" where
  "interpreter_missing p =
     FileNotFoundError (''Python executable not found in virtual environment: '' @ p)"

definition get_python_path :: "workspace \<Rightarrow> world \<Rightarrow> error + pure_path" where
  "get_python_path self w =
     (let python_path = python_location (os_nt w) self
      in if \<not> exists_path w python_path
         then Inl (interpreter_missing (os_str (os_nt w) python_path))
         else Inr python_path)"

text \<open>
  \<open>subprocess.run(argv, cwd=..., capture_output=True, text=True)\<close>: a failed spawn and
  output that does not decode are raised; the exit status is returned whatever it is.
\<close>

definition subprocess_run ::
  "string list \<Rightarrow> string \<Rightarrow> world \<Rightarrow> (error + execution_result) \<times> world" where
  "subprocess_run argv cwd w =
     (let w' = w\<lparr>spawned := spawned w @ [(argv, cwd)]\<rparr>
      in case run_child w argv cwd (disk w) of
           SpawnFailed \<Rightarrow> (Inl SpawnError, w')
         | Exited d out err rc \<Rightarrow>
             (case out of
                None \<Rightarrow> (Inl UnicodeDecodeError, w'\<lparr>disk := d\<rparr>)
              | Some so \<Rightarrow>
                  (case err of
                     None \<Rightarrow> (Inl UnicodeDecodeError, w'\<lparr>disk := d\<rparr>)
                   | Some se \<Rightarrow>
                       (Inr \<lparr>stdout = so, stderr = se, exit_code = rc\<rparr>, w'\<lparr>disk := d\<rparr>))))"

text \<open>\<open>Path(working_dir) if working_dir else self.workspace_root\<close>, as the string passed on.\<close>

definition work_dir_of :: "code_executor \<Rightarrow> string option \<Rightarrow> world \<Rightarrow> string" where
  "work_dir_of self working_dir w =
     (case working_dir of
        None \<Rightarrow> os_str (os_nt w) (workspace_root self)
      | Some dir \<Rightarrow>
          if dir = [] then os_str (os_nt w) (workspace_root self)
          else pathlib_text w dir)"

text \<open>The body of the \<open>try\<close> block of \<open>execute_code\<close>.\<close>

definition run_staged ::
  "code_executor \<Rightarrow> string \<Rightarrow> string option \<Rightarrow> world \<Rightarrow> (error + execution_result) \<times> world" where
  "run_staged self temp_file_path working_dir w =
     (case get_python_path self w of
        Inl e \<Rightarrow> (Inl e, w)
      | Inr python_path \<Rightarrow>
          subprocess_run [os_str (os_nt w) python_path, temp_file_path]
            (work_dir_of self working_dir w) w)"

text \<open>
  \<open>execute_code\<close>: the \<open>with\<close> block creates the file and writes the code; the \<open>try\<close> block
  follows it, and its \<open>finally\<close> unlinks the file. An exception raised by \<open>finally\<close>
  replaces the result of the \<open>try\<close> block.
\<close>

definition execute_code ::
  "code_executor \<Rightarrow> pystr \<Rightarrow> string option \<Rightarrow> world \<Rightarrow> (error + execution_result) \<times> world" where
  "execute_code self code working_dir w =
     (case named_temporary_file w of
        Inl e \<Rightarrow> (Inl e, w)
      | Inr (temp_file_path, w1) \<Rightarrow>
          if \<not> encodable code then (Inl UnicodeEncodeError, w1)
          else
            (case run_staged self temp_file_path working_dir
                    (w1\<lparr>disk := (disk w1)(temp_file_path \<mapsto> RegularFile code)\<rparr>) of
               (r, w3) \<Rightarrow>
                 (case os_unlink temp_file_path (disk w3) of
                    (Inl e, d) \<Rightarrow> (Inl e, w3)
                  | (Inr u, d) \<Rightarrow> (r, w3\<lparr>disk := d\<rparr>))))"

section \<open>PythonToolboxServer\<close>

record python_toolbox_server =
  server_root :: pure_path
  file_ops :: workspace
  code_analyzer :: workspace
  project_manager :: workspace
  code_executor :: workspace

definition PythonToolboxServer :: "pure_path \<Rightarrow> python_toolbox_server" where
  "PythonToolboxServer root =
     \<lparr>server_root = root,
      file_ops = \<lparr>workspace_root = root\<rparr>,
      code_analyzer = \<lparr>workspace_root = root\<rparr>,
      project_manager = \<lparr>workspace_root = root\<rparr>,
      code_executor = \<lparr>workspace_root = root\<rparr>\<rparr>"

definition execute_python ::
  "python_toolbox_server \<Rightarrow> pystr \<Rightarrow> world \<Rightarrow> (error + execution_result) \<times> world" where
  "execute_python self code w = execute_code (code_executor self) code None w"

section \<open>ProjectManager\<close>

text \<open>
  \<open>ProjectManager._get_python_path\<close> is the same code as the executor's, so
  \<open>get_python_path\<close> stands for both. \<open>subprocess.run(cmd, check=True)\<close> runs in the
  directory of the server process, captures nothing, and raises for a non-zero exit
  status.
\<close>

type_synonym project_manager = workspace

definition run_checked :: "string list \<Rightarrow> world \<Rightarrow> (error + unit) \<times> world" where
  "run_checked cmd w =
     (let w' = w\<lparr>spawned := spawned w @ [(cmd, getcwd w)]\<rparr>
      in case run_child w cmd (getcwd w) (disk w) of
           SpawnFailed \<Rightarrow> (Inl SpawnError, w')
         | Exited d out err rc \<Rightarrow>
             if rc \<noteq> 0 then (Inl CalledProcessError, w'\<lparr>disk := d\<rparr>)
             else (Inr (), w'\<lparr>disk := d\<rparr>))"

text \<open>
  What \<open>toml.load\<close> returns: a dict whose values are strings, lists, dicts, or scalars
  (integers, floats, booleans, dates). The parser itself is a parameter; it gives \<open>None\<close>
  for text that is not TOML.
\<close>

datatype toml = TString string | TArray "toml list" | TTable "(string \<times> toml) list" | TScalar

type_synonym document = "(string \<times> toml) list"

text \<open>
  \<open>k in v\<close> and \<open>v[k]\<close> for a string \<open>k\<close>: membership is a key of a dict, a substring of a
  string, an element of a list, and a \<open>TypeError\<close> for a scalar; subscripting with a
  string works for a dict only.
\<close>

fun is_substring :: "string \<Rightarrow> string \<Rightarrow> bool" where
  "is_substring p [] = (p = [])"
| "is_substring p (x # xs) = (startswith (x # xs) p \<or> is_substring p xs)"

definition key_in :: "string \<Rightarrow> toml \<Rightarrow> error + bool" where
  "key_in k v =
     (case v of
        TTable kvs \<Rightarrow> Inr (map_of kvs k \<noteq> None)
      | TString s \<Rightarrow> Inr (is_substring k s)
      | TArray xs \<Rightarrow> Inr (TString k \<in> set xs)
      | TScalar \<Rightarrow> Inl TypeError)"

definition subscript :: "toml \<Rightarrow> string \<Rightarrow> error + toml" where
  "subscript v k =
     (case v of
        TTable kvs \<Rightarrow> (case map_of kvs k of None \<Rightarrow> Inl KeyError | Some x \<Rightarrow> Inr x)
      | TString s \<Rightarrow> Inl TypeError
      | TArray xs \<Rightarrow> Inl TypeError
      | TScalar \<Rightarrow> Inl TypeError)"

text \<open>The elements of a list when all of them are strings.\<close>

fun strings_of :: "toml list \<Rightarrow> string list option" where
  "strings_of [] = Some []"
| "strings_of (TString s # xs) = map_option ((#) s) (strings_of xs)"
| "strings_of (x # xs) = None"

text \<open>
  \<open>_install_from_pyproject\<close>. \<open>[...] + deps\<close> raises \<open>TypeError\<close> unless \<open>deps\<close> is a list,
  and \<open>subprocess.run\<close> raises it, before any spawn, unless every argument is a string.
\<close>

definition install_from_pyproject ::
  "(pystr \<Rightarrow> document option) \<Rightarrow> string \<Rightarrow> pure_path \<Rightarrow> world \<Rightarrow> (error + unit) \<times> world" where
  "install_from_pyproject toml_load python_path pyproject_path w =
     (case disk w (os_str (os_nt w) pyproject_path) of
        None \<Rightarrow>
          (Inl (FileNotFoundError
                 (''[Errno 2] No such file or directory: '' @ os_str (os_nt w) pyproject_path)), w)
      | Some Directory \<Rightarrow>
          (Inl (IsADirectoryError
                 (''[Errno 21] Is a directory: '' @ os_str (os_nt w) pyproject_path)), w)
      | Some (RegularFile text) \<Rightarrow>
          (case toml_load text of
             None \<Rightarrow> (Inl TomlDecodeError, w)
           | Some pyproject \<Rightarrow>
               (case map_of pyproject ''project'' of
                  None \<Rightarrow> (Inr (), w)
                | Some project \<Rightarrow>
                    (case key_in ''dependencies'' project of
                       Inl e \<Rightarrow> (Inl e, w)
                     | Inr False \<Rightarrow> (Inr (), w)
                     | Inr True \<Rightarrow>
                         (case subscript project ''dependencies'' of
                            Inl e \<Rightarrow> (Inl e, w)
                          | Inr (TArray xs) \<Rightarrow>
                              (case strings_of xs of
                                 None \<Rightarrow> (Inl TypeError, w)
                               | Some deps \<Rightarrow>
                                   run_checked
                                     ([python_path, ''-m'', ''pip'', ''install''] @ deps) w)
                          | Inr _ \<Rightarrow> (Inl TypeError, w))))))"

text \<open>\<open>if requirements_file:\<close> holds for a string that is not empty.\<close>

definition given :: "string option \<Rightarrow> string option" where
  "given requirements_file =
     (case requirements_file of
        None \<Rightarrow> None
      | Some f \<Rightarrow> if f = [] then None else Some f)"

definition install_dependencies ::
  "(pystr \<Rightarrow> document option) \<Rightarrow> project_manager \<Rightarrow> string option \<Rightarrow> world
     \<Rightarrow> (error + unit) \<times> world" where
  "install_dependencies toml_load self requirements_file w =
     (case get_python_path self w of
        Inl e \<Rightarrow> (Inl e, w)
      | Inr python_path \<Rightarrow>
          (case given requirements_file of
             Some f \<Rightarrow>
               run_checked [os_str (os_nt w) python_path, ''-m'', ''pip'', ''install'', ''-r'',
                            pathlib_text w f] w
           | None \<Rightarrow>
               let req_path = joinpath (workspace_root self) (Path ''requirements.txt'');
                   pyproject_path = joinpath (workspace_root self) (Path ''pyproject.toml'')
               in if \<not> exists_path w req_path \<and> exists_path w pyproject_path
                  then install_from_pyproject toml_load (os_str (os_nt w) python_path)
                         pyproject_path w
                  else if \<not> exists_path w req_path
                  then (Inl (FileNotFoundError ''No requirements.txt or pyproject.toml found''), w)
                  else run_checked [os_str (os_nt w) python_path, ''-m'', ''pip'', ''install'',
                                    ''-r'', os_str (os_nt w) req_path] w))"

subsection \<open>Dependency conflicts\<close>

text \<open>
  An installed distribution, as \<open>importlib.metadata\<close> reports it, and the parts of the
  \<open>packaging\<close> library the check calls. The library is a parameter: \<open>Requirement\<close> and
  \<open>version_parse\<close> give \<open>None\<close> where the library raises \<open>InvalidRequirement\<close> and
  \<open>InvalidVersion\<close>.
\<close>

record distribution =
  dist_name :: string
  dist_version :: string
  dist_requires :: "string list option"

record 's requirement =
  req_name :: string
  req_specifier :: 's
  req_str :: string

record ('s, 'v) packaging =
  Requirement :: "string \<Rightarrow> 's requirement option"
  version_parse :: "string \<Rightarrow> 'v option"
  contains :: "'s \<Rightarrow> 'v \<Rightarrow> bool"
  version_str :: "'v \<Rightarrow> string"

record conflict =
  package :: string
  requires :: string
  installed :: string

text \<open>
  A Python dict keeps the order in which keys were first stored; storing under a key
  already there replaces the value in place.
\<close>

fun dict_set :: "'k \<Rightarrow> 'v \<Rightarrow> ('k \<times> 'v) list \<Rightarrow> ('k \<times> 'v) list" where
  "dict_set k v [] = [(k, v)]"
| "dict_set k v ((k', v') # kvs) =
     (if k' = k then (k, v) # kvs else (k', v') # dict_set k v kvs)"

definition installed_dict :: "distribution list \<Rightarrow> (string \<times> distribution) list" where
  "installed_dict ds = foldl (\<lambda>acc dist. dict_set (dist_name dist) dist acc) [] ds"

definition requires_of :: "distribution \<Rightarrow> string list" where
  "requires_of dist = (case dist_requires dist of None \<Rightarrow> [] | Some rs \<Rightarrow> rs)"

fun check_requires ::
  "('s, 'v) packaging \<Rightarrow> (string \<times> distribution) list \<Rightarrow> string \<Rightarrow> string list
     \<Rightarrow> conflict list \<Rightarrow> error + conflict list" where
  "check_requires lib inst pkg_name [] conflicts = Inr conflicts"
| "check_requires lib inst pkg_name (r # rest) conflicts =
     (case Requirement lib r of
        None \<Rightarrow> Inl (InvalidRequirement r)
      | Some req \<Rightarrow>
          (case map_of inst (req_name req) of
             None \<Rightarrow> check_requires lib inst pkg_name rest conflicts
           | Some d \<Rightarrow>
               (case version_parse lib (dist_version d) of
                  None \<Rightarrow> Inl (InvalidVersion (dist_version d))
                | Some req_version \<Rightarrow>
                    if \<not> contains lib (req_specifier req) req_version
                    then check_requires lib inst pkg_name rest
                           (conflicts @ [\<lparr>package = pkg_name, requires = req_str req,
                                           installed = version_str lib req_version\<rparr>])
                    else check_requires lib inst pkg_name rest conflicts)))"

fun check_packages ::
  "('s, 'v) packaging \<Rightarrow> (string \<times> distribution) list \<Rightarrow> (string \<times> distribution) list
     \<Rightarrow> conflict list \<Rightarrow> error + conflict list" where
  "check_packages lib inst [] conflicts = Inr conflicts"
| "check_packages lib inst ((pkg_name, dist) # rest) conflicts =
     (case check_requires lib inst pkg_name (requires_of dist) conflicts of
        Inl e \<Rightarrow> Inl e
      | Inr conflicts' \<Rightarrow> check_packages lib inst rest conflicts')"

definition check_dependency_conflicts ::
  "('s, 'v) packaging \<Rightarrow> distribution list \<Rightarrow> error + conflict list" where
  "check_dependency_conflicts lib ds =
     (let inst = installed_dict ds in check_packages lib inst inst [])"

text \<open>
  The specification's side. Two spellings name the same package when their normal forms
  agree: lower case, with every run of \<open>-\<close>, \<open>_\<close> and \<open>.\<close> written as one \<open>-\<close>.
\<close>

definition is_name_separator :: "char \<Rightarrow> bool" where
  "is_name_separator c = (c = CHR ''-'' \<or> c = CHR ''_'' \<or> c = CHR ''.'')"

definition lower :: "char \<Rightarrow> char" where
  "lower c =
     (if 65 \<le> (of_char c :: nat) \<and> (of_char c :: nat) \<le> 90
      then char_of ((of_char c :: nat) + 32) else c)"

fun canonical_from :: "bool \<Rightarrow> string \<Rightarrow> string" where
  "canonical_from after_separator [] = []"
| "canonical_from after_separator (c # cs) =
     (if is_name_separator c
      then (if after_separator then canonical_from True cs
            else CHR ''-'' # canonical_from True cs)
      else lower c # canonical_from False cs)"

definition canonical :: "string \<Rightarrow> string" where
  "canonical name = canonical_from False name"

text \<open>
  The entries for the pairs of an installed package and one of its requirements that
  names an installed package whose version is outside the requirement's specifier.
\<close>

definition flagged :: "('s, 'v) packaging \<Rightarrow> distribution list \<Rightarrow> conflict set" where
  "flagged lib ds =
     {\<lparr>package = dist_name d, requires = req_str req, installed = version_str lib v\<rparr>
        | d r req d' v.
        d \<in> set ds \<and> r \<in> set (requires_of d) \<and>
        Requirement lib r = Some req \<and>
        d' \<in> set ds \<and> canonical (dist_name d') = canonical (req_name req) \<and>
        version_parse lib (dist_version d') = Some v \<and>
        \<not> contains lib (req_specifier req) v}"



section \<open>CodeAnalyzer\<close>

subsection \<open>Formatting\<close>




subsection \<open>Linting\<close>

text \<open>
  \<open>str.splitlines\<close> and \<open>str.strip\<close>, for text whose code points are below 256: the line
  boundaries and the white space of Python in that range.
\<close>

definition is_linebreak :: "char \<Rightarrow> bool" where
  "is_linebreak c = ((of_char c :: nat) \<in> set [10, 11, 12, 13, 28, 29, 30, 133])"

definition is_space :: "char \<Rightarrow> bool" where
  "is_space c = ((of_char c :: nat) \<in> set [9, 10, 11, 12, 13, 28, 29, 30, 31, 32, 133, 160])"

fun splitlines_from :: "string \<Rightarrow> string \<Rightarrow> string list" where
  "splitlines_from cur [] = (if cur = [] then [] else [cur])"
| "splitlines_from cur [x] = (if is_linebreak x then [cur] else [cur @ [x]])"
| "splitlines_from cur (x # y # ys) =
     (if of_char x = (13::nat) \<and> of_char y = (10::nat) then cur # splitlines_from [] ys
      else if is_linebreak x then cur # splitlines_from [] (y # ys)
      else splitlines_from (cur @ [x]) (y # ys))"

definition splitlines :: "string \<Rightarrow> string list" where
  "splitlines s = splitlines_from [] s"

definition strip :: "string \<Rightarrow> string" where
  "strip s = rev (dropWhile is_space (rev (dropWhile is_space s)))"

record issue =
  issue_path :: string
  issue_line :: string
  issue_type :: string
  issue_message :: string

text \<open>The body of the loop of \<open>lint_code\<close>, for one line of the report.\<close>

definition parse_report_line :: "string \<Rightarrow> issue option" where
  "parse_report_line line =
     (if CHR '':'' \<in> set line then
        (let parts = split_on CHR '':'' line
         in if length parts \<ge> 3
            then Some \<lparr>issue_path = parts ! 0, issue_line = parts ! 1, issue_type = parts ! 2,
                       issue_message = strip (join_str '':'' (drop 3 parts))\<rparr>
            else None)
      else None)"

text \<open>\<open>lint_code\<close>, given the text pylint wrote to the reporter.\<close>

definition lint_code :: "string \<Rightarrow> issue list" where
  "lint_code pylint_output = List.map_filter parse_report_line (splitlines pylint_output)"

text \<open>The specification's side: the text after the \<open>n\<close>-th colon of a line.\<close>

fun after_colons :: "nat \<Rightarrow> string \<Rightarrow> string" where
  "after_colons 0 s = s"
| "after_colons (Suc n) [] = []"
| "after_colons (Suc n) (x # xs) =
     (if x = CHR '':'' then after_colons n xs else after_colons (Suc n) xs)"

section \<open>Example hosts\<close>

text \<open>
  A POSIX host with the workspace \<open>/ws\<close> and its virtual environment, whose children
  print nothing and exit with status 0; and variations of it used below.
\<close>

definition ws :: workspace where
  "ws = \<lparr>workspace_root = \<lparr>anchor = ''/'', parts = [''ws'']\<rparr>\<rparr>"

definition quiet_child :: "string list \<Rightarrow> string \<Rightarrow> fs \<Rightarrow> completed" where
  "quiet_child argv cwd d = Exited d (Some []) (Some []) 0"

definition host :: world where
  "host =
     \<lparr>os_nt = False,
      disk = [''/ws'' \<mapsto> Directory, ''/ws/.venv/bin/python'' \<mapsto> RegularFile []],
      temp_stem = ''/tmp/tmpk3v9xq2a'',
      getcwd = ''/'',
      run_child = quiet_child,
      spawned = [],
      win_path_text = (\<lambda>s. s)\<rparr>"

definition host_without_venv :: world where
  "host_without_venv = host\<lparr>disk := [''/ws'' \<mapsto> Directory]\<rparr>"

text \<open>A child that exits with status 3 after printing \<open>bye\<close> to its error stream.\<close>

definition exit3_child :: "string list \<Rightarrow> string \<Rightarrow> fs \<Rightarrow> completed" where
  "exit3_child argv cwd d = Exited d (Some []) (Some ''bye'') 3"

text \<open>A child that writes bytes to its output that do not decode, and exits with status 0.\<close>

definition binary_child :: "string list \<Rightarrow> string \<Rightarrow> fs \<Rightarrow> completed" where
  "binary_child argv cwd d = Exited d None (Some []) 0"

text \<open>A child that removes the script it was started with and exits with status 0.\<close>

definition self_deleting_child :: "string list \<Rightarrow> string \<Rightarrow> fs \<Rightarrow> completed" where
  "self_deleting_child argv cwd d = Exited (d(last argv := None)) (Some []) (Some []) 0"

text \<open>
  A manifest that declares one dependency, a parser that knows this text and the empty
  file, and hosts whose workspace holds a manifest, an empty manifest, or both a
  requirements file and a manifest.
\<close>

definition manifest_text :: pystr where
  "manifest_text =
     map of_char (''[project]'' @ [CHR 0x0A] @ ''dependencies = ['' @ [CHR 0x22] @
                  ''requests>=2.0'' @ [CHR 0x22] @ '']'' @ [CHR 0x0A])"

definition example_toml :: "pystr \<Rightarrow> document option" where
  "example_toml text =
     (if text = [] then Some []
      else if text = manifest_text
      then Some [(''project'', TTable [(''dependencies'', TArray [TString ''requests>=2.0''])])]
      else None)"

definition host_with_manifest :: world where
  "host_with_manifest =
     host\<lparr>disk := (disk host)(''/ws/pyproject.toml'' \<mapsto> RegularFile manifest_text)\<rparr>"

definition host_with_empty_manifest :: world where
  "host_with_empty_manifest =
     host\<lparr>disk := (disk host)(''/ws/pyproject.toml'' \<mapsto> RegularFile [])\<rparr>"

text \<open>A workspace with a requirements file and no virtual environment.\<close>

definition host_with_requirements_only :: world where
  "host_with_requirements_only =
     host\<lparr>disk := [''/ws'' \<mapsto> Directory, ''/ws/requirements.txt'' \<mapsto> RegularFile []]\<rparr>"

definition host_with_requirements :: world where
  "host_with_requirements =
     host\<lparr>disk := (disk host)(''/ws/pyproject.toml'' \<mapsto> RegularFile manifest_text,
                               ''/ws/requirements.txt'' \<mapsto> RegularFile [])\<rparr>"






text \<open>
  A table standing for the \<open>packaging\<close> library on the strings used below: a version is
  its text and its release numbers, a specifier the least release it admits.
\<close>

fun release_le :: "nat list \<Rightarrow> nat list \<Rightarrow> bool" where
  "release_le [] ys = True"
| "release_le (x # xs) [] = False"
| "release_le (x # xs) (y # ys) = (x < y \<or> (x = y \<and> release_le xs ys))"

definition table_packaging :: "(nat list, string \<times> nat list) packaging" where
  "table_packaging =
     \<lparr>Requirement = (\<lambda>r. if r = ''A>=2.0''
                          then Some \<lparr>req_name = ''A'', req_specifier = [2, 0], req_str = ''A>=2.0''\<rparr>
                          else if r = ''A>=1.0''
                          then Some \<lparr>req_name = ''A'', req_specifier = [1, 0], req_str = ''A>=1.0''\<rparr>
                          else if r = ''a>=2.0''
                          then Some \<lparr>req_name = ''a'', req_specifier = [2, 0], req_str = ''a>=2.0''\<rparr>
                          else if r = ''C>=1.0''
                          then Some \<lparr>req_name = ''C'', req_specifier = [1, 0], req_str = ''C>=1.0''\<rparr>
                          else None),
      version_parse = (\<lambda>v. if v = ''1.0'' then Some (''1.0'', [1, 0])
                            else if v = ''3.2'' then Some (''3.2'', [3, 2])
                            else None),
      contains = (\<lambda>s v. release_le s (snd v)),
      version_str = fst\<rparr>"

definition dist_A :: distribution where
  "dist_A = \<lparr>dist_name = ''A'', dist_version = ''1.0'', dist_requires = None\<rparr>"

definition dist_B :: distribution where
  "dist_B = \<lparr>dist_name = ''B'', dist_version = ''3.2'',
             dist_requires = Some [''A>=2.0'', ''C>=1.0'', ''A>=1.0'']\<rparr>"

text \<open>The same package naming \<open>A\<close> in lower case.\<close>

definition dist_B_lowercase :: distribution where
  "dist_B_lowercase = \<lparr>dist_name = ''B'', dist_version = ''3.2'',
                       dist_requires = Some [''a>=2.0'']\<rparr>"

text \<open>The same package with a requirement the library rejects.\<close>

definition dist_B_malformed :: distribution where
  "dist_B_malformed = \<lparr>dist_name = ''B'', dist_version = ''3.2'',
                       dist_requires = Some [''A>=2.0'', ''A>>2'']\<rparr>"



text \<open>A line of a pylint report in its default text format.\<close>

definition report_line :: string where
  "report_line = ''m.py:1:0: C0114: Missing module docstring (missing-module-docstring)''"

section \<open>Properties of FileOperations\<close>

lemma startswith_append: "startswith (p @ s) p"
  by (induction p) simp_all

lemma startswith_refl: "startswith p p"
  by (induction p) simp_all

lemma startswith_same_head: "startswith (a @ s) (a @ p) = startswith s p"
  by (induction a) simp_all

lemma join_str_Cons: "join_str sep (x # xs) = (if xs = [] then x else x @ sep @ join_str sep xs)"
  by (cases xs) simp_all

lemma inside_startswith_join:
  "inside rs ps \<Longrightarrow> startswith (join_str ''/'' ps) (join_str ''/'' rs)"
proof (induction rs ps rule: inside.induct)
  case (1 ps)
  then show ?case by simp
next
  case (2 r rs)
  then show ?case by simp
next
  case (3 r rs p ps)
  then have eq: "r = p" and ih: "startswith (join_str ''/'' ps) (join_str ''/'' rs)" by simp_all
  show ?case
  proof (cases rs)
    case Nil
    then show ?thesis using eq by (simp add: join_str_Cons startswith_append startswith_refl)
  next
    case (Cons r' rs')
    then obtain p' ps' where ps: "ps = p' # ps'" using 3 by (cases ps) simp_all
    have "startswith (p @ ''/'' @ join_str ''/'' ps) (p @ ''/'' @ join_str ''/'' rs)"
      using ih startswith_same_head[of "p @ ''/''"] by simp
    then show ?thesis using eq Cons ps by (simp add: join_str_Cons)
  qed
qed

text \<open>
  The half of path confinement that holds: a path that resolves inside the workspace root
  is accepted, and the resolved path is returned.
\<close>

lemma validate_path_inside:
  assumes "anchor root = ''/''"
    and "within_root root (resolve (joinpath root (Path path)))"
  shows "validate_path \<lparr>workspace_root = root\<rparr> path = Inr (resolve (joinpath root (Path path)))"
proof -
  let ?r = "resolve (joinpath root (Path path))"
  have "inside (parts root) (parts ?r)" using assms(2) by (simp add: within_root_def)
  then have "startswith (join_str ''/'' (parts ?r)) (join_str ''/'' (parts root))"
    by (rule inside_startswith_join)
  then have "startswith (str_path ?r) (str_path root)"
    using assms(1) by (simp add: str_path_def resolve_def)
  then show ?thesis by (simp add: validate_path_def Let_def)
qed

text \<open>
  Claim C1 says that \<open>_validate_path\<close> raises for every path that resolves outside the
  workspace root, and in particular accepts no sibling directory whose name extends the
  root's name. The check compares the two paths as strings: with the root \<open>/ws\<close>, the input
  \<open>../ws_evil/secret\<close> resolves to \<open>/ws_evil/secret\<close>, which is not inside the root and
  is returned as valid.
\<close>

theorem validate_path_accepts_sibling:
  "validate_path \<lparr>workspace_root = \<lparr>anchor = ''/'', parts = [''ws'']\<rparr>\<rparr> ''../ws_evil/secret''
     = Inr \<lparr>anchor = ''/'', parts = [''ws_evil'', ''secret'']\<rparr>
   \<and> \<not> within_root \<lparr>anchor = ''/'', parts = [''ws'']\<rparr>
          \<lparr>anchor = ''/'', parts = [''ws_evil'', ''secret'']\<rparr>"
  by (simp add: validate_path_def resolve_def joinpath_def Path_def str_path_def within_root_def)

text \<open>
  Claim C10: \<open>delete_file\<close> removes only regular files. For a path that passes validation,
  a directory or a missing target raises \<open>FileNotFoundError\<close> and leaves the file system as
  it was; a regular file is removed; and whenever the file system changes, the target was
  a regular file.
\<close>

theorem delete_file_only_regular_files:
  assumes "validate_path self path = Inr file_path"
  shows "(d (str_path file_path) = Some Directory \<longrightarrow>
            delete_file self path d = (Inl (FileNotFoundError (''File not found: '' @ path)), d))
       \<and> (d (str_path file_path) = None \<longrightarrow>
            delete_file self path d = (Inl (FileNotFoundError (''File not found: '' @ path)), d))
       \<and> (\<forall>c. d (str_path file_path) = Some (RegularFile c) \<longrightarrow>
            delete_file self path d = (Inr (), d(str_path file_path := None)))
       \<and> (snd (delete_file self path d) \<noteq> d \<longrightarrow>
            (\<exists>c. d (str_path file_path) = Some (RegularFile c)))"
  using assms
  by (auto simp: delete_file_def is_file_def os_unlink_def split: option.splits node.splits)

theorem delete_file_only_regular_files_witness:
  "validate_path \<lparr>workspace_root = \<lparr>anchor = ''/'', parts = [''ws'']\<rparr>\<rparr> ''sub''
     = Inr \<lparr>anchor = ''/'', parts = [''ws'', ''sub'']\<rparr>
   \<and> delete_file \<lparr>workspace_root = \<lparr>anchor = ''/'', parts = [''ws'']\<rparr>\<rparr> ''sub''
        [''/ws/sub'' \<mapsto> Directory, ''/ws/a.py'' \<mapsto> RegularFile []]
     = (Inl (FileNotFoundError ''File not found: sub''),
        [''/ws/sub'' \<mapsto> Directory, ''/ws/a.py'' \<mapsto> RegularFile []])
   \<and> delete_file \<lparr>workspace_root = \<lparr>anchor = ''/'', parts = [''ws'']\<rparr>\<rparr> ''a.py''
        [''/ws/sub'' \<mapsto> Directory, ''/ws/a.py'' \<mapsto> RegularFile []]
     = (Inr (), [''/ws/sub'' \<mapsto> Directory])
   \<and> delete_file \<lparr>workspace_root = \<lparr>anchor = ''/'', parts = [''ws'']\<rparr>\<rparr> ''gone.py''
        [''/ws/sub'' \<mapsto> Directory, ''/ws/a.py'' \<mapsto> RegularFile []]
     = (Inl (FileNotFoundError ''File not found: gone.py''),
        [''/ws/sub'' \<mapsto> Directory, ''/ws/a.py'' \<mapsto> RegularFile []])"
proof -
  let ?ws = "\<lparr>workspace_root = \<lparr>anchor = ''/'', parts = [''ws'']\<rparr>\<rparr>"
  let ?d = "[''/ws/sub'' \<mapsto> Directory, ''/ws/a.py'' \<mapsto> RegularFile []]"
  have h1: "validate_path ?ws ''sub'' = Inr \<lparr>anchor = ''/'', parts = [''ws'', ''sub'']\<rparr>"
    by (simp add: validate_path_def resolve_def joinpath_def Path_def str_path_def)
  have h2: "validate_path ?ws ''a.py'' = Inr \<lparr>anchor = ''/'', parts = [''ws'', ''a.py'']\<rparr>"
    by (simp add: validate_path_def resolve_def joinpath_def Path_def str_path_def)
  have h3: "validate_path ?ws ''gone.py'' = Inr \<lparr>anchor = ''/'', parts = [''ws'', ''gone.py'']\<rparr>"
    by (simp add: validate_path_def resolve_def joinpath_def Path_def str_path_def)
  have e: "?d(''/ws/a.py'' := None) = [''/ws/sub'' \<mapsto> Directory]"
    by (rule ext) simp
  show ?thesis
    using h1 e delete_file_only_regular_files [OF h1, of ?d]
      delete_file_only_regular_files [OF h2, of ?d]
      delete_file_only_regular_files [OF h3, of ?d]
    by (simp add: str_path_def)
qed

section \<open>Properties of CodeExecutor and the server\<close>

text \<open>
  The staged file is never the interpreter: its name ends in \<open>.py\<close>, the interpreter's in
  \<open>python\<close> or \<open>python.exe\<close>.
\<close>

lemma python_location_eq:
  "python_location nt self =
     \<lparr>anchor = anchor (workspace_root self),
      parts = parts (workspace_root self) @
        (if nt then [''.venv'', ''Scripts'', ''python.exe''] else [''.venv'', ''bin'', ''python''])\<rparr>"
  by (simp add: python_location_def venv_path_def joinpath_def Path_def)

lemma join_str_nonempty_last:
  "ys \<noteq> [] \<Longrightarrow> last ys \<noteq> [] \<Longrightarrow>
     join_str sep ys \<noteq> [] \<and> last (join_str sep ys) = last (last ys)"
  by (induction sep ys rule: join_str.induct) auto

lemma os_str_python_last:
  "os_str nt (python_location nt self) \<noteq> [] \<and>
   last (os_str nt (python_location nt self)) = (if nt then CHR ''e'' else CHR ''n'')"
proof (cases nt)
  case True
  have "join_str [CHR 0x5C] (parts (workspace_root self) @ [''.venv'', ''Scripts'', ''python.exe'']) \<noteq> [] \<and>
        last (join_str [CHR 0x5C] (parts (workspace_root self) @ [''.venv'', ''Scripts'', ''python.exe'']))
          = last (last (parts (workspace_root self) @ [''.venv'', ''Scripts'', ''python.exe'']))"
    by (rule join_str_nonempty_last) simp_all
  then show ?thesis using True
    by (simp add: python_location_eq os_str_def del: join_str.simps)
next
  case False
  have "join_str ''/'' (parts (workspace_root self) @ [''.venv'', ''bin'', ''python'']) \<noteq> [] \<and>
        last (join_str ''/'' (parts (workspace_root self) @ [''.venv'', ''bin'', ''python'']))
          = last (last (parts (workspace_root self) @ [''.venv'', ''bin'', ''python'']))"
    by (rule join_str_nonempty_last) simp_all
  then show ?thesis using False
    by (simp add: python_location_eq os_str_def str_path_def del: join_str.simps)
qed

lemma temp_name_not_python: "temp_name w \<noteq> os_str nt (python_location nt self)"
proof
  assume "temp_name w = os_str nt (python_location nt self)"
  then have "last (temp_name w) = last (os_str nt (python_location nt self))" by simp
  then show False using os_str_python_last [of nt self] by (simp add: temp_name_def split: if_splits)
qed


lemma get_python_path_staged:
  "get_python_path self (w\<lparr>disk := (disk w)(temp_name w \<mapsto> n)\<rparr>) =
     (if exists_path w (python_location (os_nt w) self) then Inr (python_location (os_nt w) self)
      else Inl (interpreter_missing (os_str (os_nt w) (python_location (os_nt w) self))))"
  using temp_name_not_python [of w "os_nt w" self]
  by (auto simp: get_python_path_def exists_path_def Let_def temp_name_def)

lemma execute_code_staged:
  assumes "disk w (temp_name w) = None" and "encodable code"
  shows "execute_code self code working_dir w =
     (case run_staged self (temp_name w) working_dir
             (w\<lparr>disk := (disk w)(temp_name w \<mapsto> RegularFile code)\<rparr>) of
        (r, w3) \<Rightarrow>
          (case os_unlink (temp_name w) (disk w3) of
             (Inl e, d) \<Rightarrow> (Inl e, w3)
           | (Inr u, d) \<Rightarrow> (r, w3\<lparr>disk := d\<rparr>)))"
  using assms by (simp add: execute_code_def named_temporary_file_def)

lemma subprocess_run_not_missing:
  "fst (subprocess_run argv cwd w) \<noteq> Inl (interpreter_missing p)"
  by (simp add: subprocess_run_def Let_def interpreter_missing_def
        split: completed.splits option.splits)

lemma os_unlink_not_missing:
  "fst (os_unlink t d) \<noteq> Inl (interpreter_missing p)"
  by (simp add: os_unlink_def interpreter_missing_def split: option.splits node.splits)

text \<open>
  Claim C3, amended. When the code has been staged (the temporary name was free and the
  code could be written) and there is no interpreter at \<open>.venv/bin/python\<close> (POSIX) or
  \<open>.venv/Scripts/python.exe\<close> (Windows) under the workspace root, \<open>execute_code\<close> raises
  the interpreter-not-found error whatever the code and the working directory are, spawns
  nothing, and leaves the disk as it found it. When the interpreter is there, no
  interpreter-not-found error is raised.
\<close>

theorem execute_code_interpreter_check:
  "(disk w (temp_name w) = None \<and> encodable code \<and>
      \<not> exists_path w (python_location (os_nt w) self) \<longrightarrow>
      execute_code self code working_dir w =
        (Inl (interpreter_missing (os_str (os_nt w) (python_location (os_nt w) self))), w))
   \<and> (exists_path w (python_location (os_nt w) self) \<longrightarrow>
        (\<forall>p. fst (execute_code self code working_dir w) \<noteq> Inl (interpreter_missing p)))"
proof (intro conjI impI allI)
  assume a: "disk w (temp_name w) = None \<and> encodable code \<and>
      \<not> exists_path w (python_location (os_nt w) self)"
  let ?w2 = "w\<lparr>disk := (disk w)(temp_name w \<mapsto> RegularFile code)\<rparr>"
  have r: "run_staged self (temp_name w) working_dir ?w2 =
      (Inl (interpreter_missing (os_str (os_nt w) (python_location (os_nt w) self))), ?w2)"
    using a by (simp add: run_staged_def get_python_path_staged)
  have d: "(disk w)(temp_name w := None) = disk w"
    using a by (intro ext) simp
  show "execute_code self code working_dir w =
        (Inl (interpreter_missing (os_str (os_nt w) (python_location (os_nt w) self))), w)"
    using a by (simp add: execute_code_staged r os_unlink_def d)
next
  fix p
  assume e: "exists_path w (python_location (os_nt w) self)"
  show "fst (execute_code self code working_dir w) \<noteq> Inl (interpreter_missing p)"
  proof (cases "disk w (temp_name w) = None \<and> encodable code")
    case False
    then show ?thesis
      by (auto simp: execute_code_def named_temporary_file_def interpreter_missing_def
            split: option.splits)
  next
    case True
    let ?w2 = "w\<lparr>disk := (disk w)(temp_name w \<mapsto> RegularFile code)\<rparr>"
    obtain r w3 where rs: "run_staged self (temp_name w) working_dir ?w2 = (r, w3)"
      by (cases "run_staged self (temp_name w) working_dir ?w2")
    have "r = fst (subprocess_run
                [os_str (os_nt w) (python_location (os_nt w) self), temp_name w]
                (work_dir_of self working_dir ?w2) ?w2)"
      using rs e by (simp add: run_staged_def get_python_path_staged)
    then have rn: "r \<noteq> Inl (interpreter_missing p)"
      using subprocess_run_not_missing by simp
    obtain u d where ul: "os_unlink (temp_name w) (disk w3) = (u, d)"
      by (cases "os_unlink (temp_name w) (disk w3)")
    have un: "u \<noteq> Inl (interpreter_missing p)"
      using os_unlink_not_missing [of "temp_name w" "disk w3" p] ul by simp
    show ?thesis
      using True rs ul rn un
      by (cases u) (simp_all add: execute_code_staged)
  qed
qed


lemmas host_simps =
  host_def host_without_venv_def ws_def temp_name_def encodable_def is_surrogate_def
  exists_path_def python_location_eq os_str_def str_path_def

text \<open>The host without a virtual environment, and the host with one.\<close>

theorem execute_code_interpreter_check_witness:
  "execute_code ws [112, 97, 115, 115] None host_without_venv =
     (Inl (FileNotFoundError
            ''Python executable not found in virtual environment: /ws/.venv/bin/python''),
      host_without_venv)
   \<and> exists_path host (python_location (os_nt host) ws)
   \<and> fst (execute_code ws [112, 97, 115, 115] None host)
       \<noteq> Inl (interpreter_missing ''/ws/.venv/bin/python'')"
  using execute_code_interpreter_check
      [where w = host_without_venv and code = "[112, 97, 115, 115]" and self = ws
         and working_dir = None]
    execute_code_interpreter_check
      [where w = host and code = "[112, 97, 115, 115]" and self = ws and working_dir = None]
  by (simp add: host_simps interpreter_missing_def)

text \<open>
  Claim C3 as stated fails for code that cannot be staged: with no interpreter and the code
  consisting of a lone surrogate, the error raised is \<open>UnicodeEncodeError\<close>, from the write
  to the temporary file, which comes before the interpreter is looked for.
\<close>

theorem execute_code_unencodable_not_interpreter_error:
  "\<not> exists_path host_without_venv (python_location (os_nt host_without_venv) ws)
   \<and> fst (execute_code ws [0xD800] None host_without_venv) = Inl UnicodeEncodeError"
  by (simp add: host_simps execute_code_def named_temporary_file_def)

text \<open>
  Claim C2 says that the staged file is gone when \<open>execute_code\<close> returns, on every exit
  path. The write to the file is outside the \<open>try\<close> block whose \<open>finally\<close> removes it: when
  the write raises, the file stays. Here the code is a lone surrogate; the name was free
  before the call and holds an empty file after it.
\<close>

theorem execute_code_leaves_staged_file:
  "fst (execute_code ws [0xD800] None host) = Inl UnicodeEncodeError
   \<and> disk host ''/tmp/tmpk3v9xq2a.py'' = None
   \<and> disk (snd (execute_code ws [0xD800] None host)) ''/tmp/tmpk3v9xq2a.py''
       = Some (RegularFile [])"
  by (simp add: host_simps execute_code_def named_temporary_file_def)

text \<open>
  On every path that has entered the \<open>try\<close> block, the staged file is not left behind.
\<close>

lemma execute_code_cleanup:
  assumes "disk w (temp_name w) = None" and "encodable code"
  shows "disk (snd (execute_code self code working_dir w)) (temp_name w) \<noteq> Some (RegularFile c)"
proof -
  let ?w2 = "w\<lparr>disk := (disk w)(temp_name w \<mapsto> RegularFile code)\<rparr>"
  obtain r w3 where rs: "run_staged self (temp_name w) working_dir ?w2 = (r, w3)"
    by (cases "run_staged self (temp_name w) working_dir ?w2")
  show ?thesis
    using assms rs
    by (auto simp: execute_code_staged os_unlink_def split: option.splits node.splits)
qed

lemma work_dir_of_disk [simp]:
  "work_dir_of self working_dir (w\<lparr>disk := d\<rparr>) = work_dir_of self working_dir w"
  by (simp add: work_dir_of_def pathlib_text_def split: option.splits)

text \<open>
  Claim C4, amended. When the code has been staged, the interpreter is there, the child is
  spawned and ends with output that decodes as text and with the staged file still in
  place, \<open>execute_code\<close> returns the record of the child's output and exit status, whatever
  the exit status is.
\<close>

theorem execute_code_exit_status_is_data:
  assumes "disk w (temp_name w) = None"
    and "encodable code"
    and "exists_path w (python_location (os_nt w) self)"
    and "run_child w [os_str (os_nt w) (python_location (os_nt w) self), temp_name w]
           (work_dir_of self working_dir w) ((disk w)(temp_name w \<mapsto> RegularFile code))
         = Exited d (Some out) (Some err) rc"
    and "d (temp_name w) = Some (RegularFile c)"
  shows "fst (execute_code self code working_dir w) =
           Inr \<lparr>stdout = out, stderr = err, exit_code = rc\<rparr>"
  using assms
  by (simp add: execute_code_staged run_staged_def get_python_path_staged subprocess_run_def
        Let_def os_unlink_def)

text \<open>A child that exits with status 3: the status is returned as data.\<close>

theorem execute_code_exit_status_is_data_witness:
  "fst (execute_code ws [112, 97, 115, 115] None (host\<lparr>run_child := exit3_child\<rparr>)) =
     Inr \<lparr>stdout = [], stderr = ''bye'', exit_code = 3\<rparr>"
  using execute_code_exit_status_is_data
    [where w = "host\<lparr>run_child := exit3_child\<rparr>" and code = "[112, 97, 115, 115]"
       and self = ws and working_dir = None
       and d = "(disk host)(''/tmp/tmpk3v9xq2a.py'' \<mapsto> RegularFile [112, 97, 115, 115])"
       and out = "[]" and err = "''bye''" and rc = 3 and c = "[112, 97, 115, 115]"]
  by (simp add: host_simps exit3_child_def work_dir_of_def)

text \<open>
  Claim C4 as stated fails for two children that are spawned and exit with status 0: one
  whose output does not decode (\<open>UnicodeDecodeError\<close> is raised), and one that removes the
  staged script, so that the \<open>os.unlink\<close> of \<open>finally\<close> raises \<open>FileNotFoundError\<close>.
\<close>

theorem execute_code_raises_after_child_exit:
  "fst (execute_code ws [112, 97, 115, 115] None (host\<lparr>run_child := binary_child\<rparr>))
     = Inl UnicodeDecodeError
   \<and> spawned (snd (execute_code ws [112, 97, 115, 115] None (host\<lparr>run_child := binary_child\<rparr>)))
     = [([''/ws/.venv/bin/python'', ''/tmp/tmpk3v9xq2a.py''], ''/ws'')]
   \<and> fst (execute_code ws [112, 97, 115, 115] None (host\<lparr>run_child := self_deleting_child\<rparr>))
     = Inl (FileNotFoundError ''[Errno 2] No such file or directory: /tmp/tmpk3v9xq2a.py'')"
  by (simp add: host_simps execute_code_def named_temporary_file_def run_staged_def
        get_python_path_def subprocess_run_def Let_def os_unlink_def work_dir_of_def
        binary_child_def self_deleting_child_def)

text \<open>What a call adds to the record of spawns, and what it returns when the child ends.\<close>

lemma subprocess_run_spawned:
  "spawned (snd (subprocess_run argv cwd w)) = spawned w @ [(argv, cwd)]"
  by (simp add: subprocess_run_def Let_def split: completed.splits option.splits)

lemma finally_spawned:
  "spawned (snd (case os_unlink t (disk wa) of
                   (Inl e, d) \<Rightarrow> (Inl e, wa)
                 | (Inr u, d) \<Rightarrow> (r, wa\<lparr>disk := d\<rparr>))) = spawned wa"
  by (simp add: os_unlink_def split: option.splits node.splits)

lemma execute_code_spawned_staged:
  assumes "disk w (temp_name w) = None" and "encodable code"
    and "exists_path w (python_location (os_nt w) self)"
  shows "spawned (snd (execute_code self code working_dir w)) =
           spawned w @ [([os_str (os_nt w) (python_location (os_nt w) self), temp_name w],
                         work_dir_of self working_dir w)]"
proof -
  let ?w2 = "w\<lparr>disk := (disk w)(temp_name w \<mapsto> RegularFile code)\<rparr>"
  let ?argv = "[os_str (os_nt w) (python_location (os_nt w) self), temp_name w]"
  have rs: "run_staged self (temp_name w) working_dir ?w2 =
              subprocess_run ?argv (work_dir_of self working_dir w) ?w2"
    using assms(3) by (simp add: run_staged_def get_python_path_staged)
  obtain r w3 where sr: "subprocess_run ?argv (work_dir_of self working_dir w) ?w2 = (r, w3)"
    by (cases "subprocess_run ?argv (work_dir_of self working_dir w) ?w2")
  have "spawned w3 = spawned w @ [(?argv, work_dir_of self working_dir w)]"
    using subprocess_run_spawned [where argv = ?argv and cwd = "work_dir_of self working_dir w" and w = ?w2] sr by simp
  then show ?thesis
    using assms(1,2) rs sr finally_spawned [where t = "temp_name w" and wa = w3 and r = r]
    by (simp add: execute_code_staged)
qed

lemma execute_code_spawned_otherwise:
  assumes "\<not> (disk w (temp_name w) = None \<and> encodable code \<and>
              exists_path w (python_location (os_nt w) self))"
  shows "spawned (snd (execute_code self code working_dir w)) = spawned w"
proof (cases "disk w (temp_name w) = None \<and> encodable code")
  case False
  then show ?thesis
    by (auto simp: execute_code_def named_temporary_file_def split: option.splits)
next
  case True
  then have "\<not> exists_path w (python_location (os_nt w) self)" using assms by simp
  then show ?thesis
    using True
    by (simp add: execute_code_staged run_staged_def get_python_path_staged os_unlink_def)
qed

lemma execute_code_result_staged:
  assumes "disk w (temp_name w) = None"
    and "encodable code"
    and "exists_path w (python_location (os_nt w) self)"
    and "run_child w [os_str (os_nt w) (python_location (os_nt w) self), temp_name w]
           (work_dir_of self working_dir w) ((disk w)(temp_name w \<mapsto> RegularFile code))
         = Exited d (Some out) (Some err) rc"
    and "d (temp_name w) = Some (RegularFile c)"
  shows "fst (execute_code self code working_dir w) =
           Inr \<lparr>stdout = out, stderr = err, exit_code = rc\<rparr>"
  using assms
  by (simp add: execute_code_staged run_staged_def get_python_path_staged subprocess_run_def
        Let_def os_unlink_def)

text \<open>
  Claim C9: the \<open>execute_python\<close> tool passes no working directory. When the code has been
  staged and the interpreter is there, the call spawns exactly one child, the interpreter
  on the staged file, with the workspace root of the server's executor as its working
  directory, and what it returns is what that child, run there, produced. Otherwise it
  spawns nothing. The executor's root is the root the server was built with.
\<close>

theorem execute_python_runs_in_workspace_root:
  "(disk w (temp_name w) = None \<and> encodable code \<and>
      exists_path w (python_location (os_nt w) (code_executor self)) \<longrightarrow>
      spawned (snd (execute_python self code w)) =
        spawned w @ [([os_str (os_nt w) (python_location (os_nt w) (code_executor self)),
                       temp_name w],
                      os_str (os_nt w) (workspace_root (code_executor self)))]
      \<and> (\<forall>d out err rc c.
            run_child w
              [os_str (os_nt w) (python_location (os_nt w) (code_executor self)), temp_name w]
              (os_str (os_nt w) (workspace_root (code_executor self)))
              ((disk w)(temp_name w \<mapsto> RegularFile code))
            = Exited d (Some out) (Some err) rc \<and>
            d (temp_name w) = Some (RegularFile c) \<longrightarrow>
            fst (execute_python self code w) =
              Inr \<lparr>stdout = out, stderr = err, exit_code = rc\<rparr>))
   \<and> (\<not> (disk w (temp_name w) = None \<and> encodable code \<and>
           exists_path w (python_location (os_nt w) (code_executor self))) \<longrightarrow>
        spawned (snd (execute_python self code w)) = spawned w)
   \<and> workspace_root (code_executor (PythonToolboxServer root)) = root"
proof (intro conjI impI allI)
  assume a: "disk w (temp_name w) = None \<and> encodable code \<and>
      exists_path w (python_location (os_nt w) (code_executor self))"
  have wd: "work_dir_of (code_executor self) None w
              = os_str (os_nt w) (workspace_root (code_executor self))"
    by (simp add: work_dir_of_def)
  show "spawned (snd (execute_python self code w)) =
        spawned w @ [([os_str (os_nt w) (python_location (os_nt w) (code_executor self)),
                       temp_name w],
                      os_str (os_nt w) (workspace_root (code_executor self)))]"
    using a execute_code_spawned_staged [where w = w and code = code and self = "code_executor self" and working_dir = None]
    by (simp add: execute_python_def wd)
  fix d out err rc c
  assume r: "run_child w
              [os_str (os_nt w) (python_location (os_nt w) (code_executor self)), temp_name w]
              (os_str (os_nt w) (workspace_root (code_executor self)))
              ((disk w)(temp_name w \<mapsto> RegularFile code))
            = Exited d (Some out) (Some err) rc \<and>
            d (temp_name w) = Some (RegularFile c)"
  show "fst (execute_python self code w) = Inr \<lparr>stdout = out, stderr = err, exit_code = rc\<rparr>"
    using a r
      execute_code_result_staged [where w = w and code = code and self = "code_executor self" and working_dir = None and d = d and out = out and err = err and rc = rc and c = c]
    by (simp add: execute_python_def wd)
next
  assume "\<not> (disk w (temp_name w) = None \<and> encodable code \<and>
           exists_path w (python_location (os_nt w) (code_executor self)))"
  then show "spawned (snd (execute_python self code w)) = spawned w"
    using execute_code_spawned_otherwise [where w = w and code = code and self = "code_executor self" and working_dir = None]
    by (simp add: execute_python_def)
next
  show "workspace_root (code_executor (PythonToolboxServer root)) = root"
    by (simp add: PythonToolboxServer_def)
qed

text \<open>
  The server for \<open>/ws\<close>: on the host the child runs in \<open>/ws\<close>; its exit status 3 comes
  back; without a virtual environment nothing is spawned.
\<close>

theorem execute_python_runs_in_workspace_root_witness:
  "spawned (snd (execute_python (PythonToolboxServer \<lparr>anchor = ''/'', parts = [''ws'']\<rparr>)
                   [112, 97, 115, 115] host))
     = [([''/ws/.venv/bin/python'', ''/tmp/tmpk3v9xq2a.py''], ''/ws'')]
   \<and> fst (execute_python (PythonToolboxServer \<lparr>anchor = ''/'', parts = [''ws'']\<rparr>)
            [112, 97, 115, 115] (host\<lparr>run_child := exit3_child\<rparr>))
     = Inr \<lparr>stdout = [], stderr = ''bye'', exit_code = 3\<rparr>
   \<and> spawned (snd (execute_python (PythonToolboxServer \<lparr>anchor = ''/'', parts = [''ws'']\<rparr>)
                   [112, 97, 115, 115] host_without_venv))
     = []"
  using
    execute_python_runs_in_workspace_root
      [where w = host and code = "[112, 97, 115, 115]"
         and self = "PythonToolboxServer \<lparr>anchor = ''/'', parts = [''ws'']\<rparr>"]
    execute_python_runs_in_workspace_root
      [where w = "host\<lparr>run_child := exit3_child\<rparr>" and code = "[112, 97, 115, 115]"
         and self = "PythonToolboxServer \<lparr>anchor = ''/'', parts = [''ws'']\<rparr>"]
    execute_python_runs_in_workspace_root
      [where w = host_without_venv and code = "[112, 97, 115, 115]"
         and self = "PythonToolboxServer \<lparr>anchor = ''/'', parts = [''ws'']\<rparr>"]
  by (simp add: host_simps PythonToolboxServer_def exit3_child_def)

section \<open>Properties of ProjectManager\<close>

text \<open>
  Claim C5, amended. \<open>install_dependencies\<close> first locates the interpreter of the virtual
  environment and raises the interpreter-not-found error when it is absent, whatever
  sources there are. With the interpreter in place it installs from the file passed to it
  when one is passed (a path that is not empty); otherwise from \<open>requirements.txt\<close> in the
  workspace root when that exists; otherwise from the \<open>project.dependencies\<close> list of
  strings of \<open>pyproject.toml\<close>. It raises \<open>FileNotFoundError\<close> when neither
  \<open>requirements.txt\<close> nor \<open>pyproject.toml\<close> exists. When \<open>pyproject.toml\<close> has no
  \<open>project\<close> table, or a \<open>project\<close> table without \<open>dependencies\<close>, it returns without
  installing anything and without an error.
\<close>

theorem install_dependencies_resolution:
  "(\<not> exists_path w (python_location (os_nt w) self) \<longrightarrow>
      install_dependencies toml_load self requirements_file w =
        (Inl (interpreter_missing (os_str (os_nt w) (python_location (os_nt w) self))), w))
   \<and> (\<forall>f. exists_path w (python_location (os_nt w) self) \<and>
        requirements_file = Some f \<and> f \<noteq> [] \<longrightarrow>
        install_dependencies toml_load self requirements_file w =
          run_checked [os_str (os_nt w) (python_location (os_nt w) self),
                       ''-m'', ''pip'', ''install'', ''-r'', pathlib_text w f] w)
   \<and> (exists_path w (python_location (os_nt w) self) \<and>
        given requirements_file = None \<and>
        exists_path w (joinpath (workspace_root self) (Path ''requirements.txt'')) \<longrightarrow>
        install_dependencies toml_load self requirements_file w =
          run_checked [os_str (os_nt w) (python_location (os_nt w) self),
                       ''-m'', ''pip'', ''install'', ''-r'',
                       os_str (os_nt w)
                         (joinpath (workspace_root self) (Path ''requirements.txt''))] w)
   \<and> (\<forall>text pyproject project xs deps.
        exists_path w (python_location (os_nt w) self) \<and>
        given requirements_file = None \<and>
        \<not> exists_path w (joinpath (workspace_root self) (Path ''requirements.txt'')) \<and>
        disk w (os_str (os_nt w) (joinpath (workspace_root self) (Path ''pyproject.toml'')))
          = Some (RegularFile text) \<and>
        toml_load text = Some pyproject \<and>
        map_of pyproject ''project'' = Some (TTable project) \<and>
        map_of project ''dependencies'' = Some (TArray xs) \<and>
        strings_of xs = Some deps \<longrightarrow>
        install_dependencies toml_load self requirements_file w =
          run_checked ([os_str (os_nt w) (python_location (os_nt w) self),
                        ''-m'', ''pip'', ''install''] @ deps) w)
   \<and> (exists_path w (python_location (os_nt w) self) \<and>
        given requirements_file = None \<and>
        \<not> exists_path w (joinpath (workspace_root self) (Path ''requirements.txt'')) \<and>
        \<not> exists_path w (joinpath (workspace_root self) (Path ''pyproject.toml'')) \<longrightarrow>
        install_dependencies toml_load self requirements_file w =
          (Inl (FileNotFoundError ''No requirements.txt or pyproject.toml found''), w))
   \<and> (\<forall>text pyproject.
        exists_path w (python_location (os_nt w) self) \<and>
        given requirements_file = None \<and>
        \<not> exists_path w (joinpath (workspace_root self) (Path ''requirements.txt'')) \<and>
        disk w (os_str (os_nt w) (joinpath (workspace_root self) (Path ''pyproject.toml'')))
          = Some (RegularFile text) \<and>
        toml_load text = Some pyproject \<and>
        (map_of pyproject ''project'' = None
         \<or> (\<exists>project. map_of pyproject ''project'' = Some (TTable project) \<and>
                map_of project ''dependencies'' = None)) \<longrightarrow>
        install_dependencies toml_load self requirements_file w = (Inr (), w))"
  by (auto simp: install_dependencies_def get_python_path_def Let_def given_def
        install_from_pyproject_def exists_path_def key_in_def subscript_def)

text \<open>One host for each of the six cases.\<close>

lemma manifest_text_not_empty: "manifest_text \<noteq> []"
  by (simp add: manifest_text_def)

lemmas install_simps =
  host_def host_with_manifest_def host_with_empty_manifest_def host_with_requirements_def
  host_with_requirements_only_def
  ws_def exists_path_def python_location_eq os_str_def str_path_def joinpath_def Path_def
  given_def pathlib_text_def

theorem install_dependencies_resolution_witness:
  "install_dependencies example_toml ws (Some ''dev.txt'') host_with_requirements_only =
     (Inl (interpreter_missing ''/ws/.venv/bin/python''), host_with_requirements_only)
   \<and> install_dependencies example_toml ws (Some ''dev.txt'') host_with_requirements =
     run_checked [''/ws/.venv/bin/python'', ''-m'', ''pip'', ''install'', ''-r'', ''dev.txt'']
       host_with_requirements
   \<and> install_dependencies example_toml ws None host_with_requirements =
     run_checked [''/ws/.venv/bin/python'', ''-m'', ''pip'', ''install'', ''-r'',
                  ''/ws/requirements.txt''] host_with_requirements
   \<and> install_dependencies example_toml ws None host_with_manifest =
     run_checked [''/ws/.venv/bin/python'', ''-m'', ''pip'', ''install'', ''requests>=2.0'']
       host_with_manifest
   \<and> install_dependencies example_toml ws None host =
     (Inl (FileNotFoundError ''No requirements.txt or pyproject.toml found''), host)
   \<and> install_dependencies example_toml ws None host_with_empty_manifest =
     (Inr (), host_with_empty_manifest)"
  using
    install_dependencies_resolution
      [where w = host_with_requirements_only and self = ws and toml_load = example_toml
         and requirements_file = "Some ''dev.txt''"]
    install_dependencies_resolution
      [where w = host_with_requirements and self = ws and toml_load = example_toml
         and requirements_file = "Some ''dev.txt''"]
    install_dependencies_resolution
      [where w = host_with_requirements and self = ws and toml_load = example_toml
         and requirements_file = None]
    install_dependencies_resolution
      [where w = host_with_manifest and self = ws and toml_load = example_toml
         and requirements_file = None]
    install_dependencies_resolution
      [where w = host and self = ws and toml_load = example_toml and requirements_file = None]
    install_dependencies_resolution
      [where w = host_with_empty_manifest and self = ws and toml_load = example_toml
         and requirements_file = None]
    manifest_text_not_empty
  by (simp add: install_simps example_toml_def)

text \<open>
  Claim C5 as stated fails in two places. Where no file is passed, there is no
  \<open>requirements.txt\<close>, and \<open>pyproject.toml\<close> is an empty file, none of the three sources is
  there and the call returns normally, leaving the host as it was. And where
  \<open>requirements.txt\<close> exists but the virtual environment does not, the call raises the
  interpreter-not-found error and installs nothing.
\<close>

theorem install_dependencies_silent_without_source:
  "given None = None
   \<and> \<not> exists_path host_with_empty_manifest
         (joinpath (workspace_root ws) (Path ''requirements.txt''))
   \<and> example_toml [] = Some []
   \<and> install_dependencies example_toml ws None host_with_empty_manifest =
       (Inr (), host_with_empty_manifest)
   \<and> exists_path host_with_requirements_only
         (joinpath (workspace_root ws) (Path ''requirements.txt''))
   \<and> install_dependencies example_toml ws None host_with_requirements_only =
       (Inl (interpreter_missing ''/ws/.venv/bin/python''), host_with_requirements_only)"
  by (simp add: install_simps example_toml_def install_dependencies_def get_python_path_def
        install_from_pyproject_def)

subsection \<open>Dependency conflicts\<close>



lemma set_map_filter_eq: "set (List.map_filter f xs) = {y. \<exists>x \<in> set xs. f x = Some y}"
  by (induction xs) (auto simp: map_filter_simps split: option.splits)













text \<open>
  With \<open>A\<close> installed at 1.0 and \<open>B\<close> requiring \<open>A>=2.0\<close>, a package that is not installed,
  and \<open>A>=1.0\<close>: one entry, for \<open>A>=2.0\<close>.
\<close>

lemmas packaging_simps =
  table_packaging_def dist_A_def dist_B_def dist_B_malformed_def dist_B_lowercase_def
  installed_dict_def requires_of_def

lemma canonical_names:
  "canonical ''A'' = ''a''" "canonical ''B'' = ''b''" "canonical ''C'' = ''c''"
  "canonical ''a'' = ''a''"
  by code_simp+


lemma flaggedI:
  assumes "d \<in> set ds"
    and "r \<in> set (requires_of d)"
    and "Requirement lib r = Some req"
    and "d' \<in> set ds"
    and "canonical (dist_name d') = canonical (req_name req)"
    and "version_parse lib (dist_version d') = Some v"
    and "\<not> contains lib (req_specifier req) v"
  shows "\<lparr>package = dist_name d, requires = req_str req, installed = version_str lib v\<rparr>
           \<in> flagged lib ds"
  using assms unfolding flagged_def by blast


text \<open>
  The amended claim leaves open what happens when a requirement spells the name of an
  installed package differently from the package's metadata. The code looks the name up
  as it is written: \<open>B\<close> requiring \<open>a>=2.0\<close> with \<open>A\<close> installed at 1.0 is not reported.
\<close>

lemma check_dependency_conflicts_other_spelling:
  "check_dependency_conflicts table_packaging [dist_A, dist_B_lowercase] = Inr []
   \<and> \<lparr>package = ''B'', requires = ''a>=2.0'', installed = ''1.0''\<rparr>
       \<in> flagged table_packaging [dist_A, dist_B_lowercase]"
proof -
  have e: "check_dependency_conflicts table_packaging [dist_A, dist_B_lowercase] = Inr []"
    by (simp add: check_dependency_conflicts_def packaging_simps)
  have "\<lparr>package = ''B'', requires = ''a>=2.0'', installed = ''1.0''\<rparr>
        \<in> flagged table_packaging [dist_A, dist_B_lowercase]"
    using flaggedI
      [where lib = table_packaging and ds = "[dist_A, dist_B_lowercase]"
         and d = dist_B_lowercase and r = "''a>=2.0''"
         and req = "\<lparr>req_name = ''a'', req_specifier = [2, 0], req_str = ''a>=2.0''\<rparr>"
         and d' = dist_A and v = "(''1.0'', [1, 0])"]
    by (simp add: packaging_simps canonical_names)
  then show ?thesis using e by simp
qed

section \<open>Properties of CodeAnalyzer\<close>

subsection \<open>Linting\<close>

text \<open>
  Joining what is left of the fields after the first \<open>n\<close> gives back the text after the
  \<open>n\<close>-th colon: the colons inside it are kept.
\<close>

lemma split_on_not_Nil: "split_on c s \<noteq> []"
  by (induction s) (auto split: list.splits)

lemma split_on_no_separator: "c \<notin> set s \<Longrightarrow> split_on c s = [s]"
  by (induction s) auto

lemma join_split_on: "join_str [c] (split_on c s) = s"
proof (induction s)
  case Nil
  then show ?case by simp
next
  case (Cons x xs)
  obtain y ys where sp: "split_on c xs = y # ys"
    using split_on_not_Nil [of c xs] by (cases "split_on c xs") auto
  show ?case using Cons sp by (cases ys) auto
qed

lemma join_drop_split_on:
  "join_str '':'' (drop n (split_on CHR '':'' s)) = after_colons n s"
proof (induction s arbitrary: n)
  case Nil
  then show ?case by (cases n) simp_all
next
  case (Cons x xs)
  obtain y ys where sp: "split_on CHR '':'' xs = y # ys"
    using split_on_not_Nil [of "CHR '':''" xs] by (cases "split_on CHR '':'' xs") auto
  show ?case
  proof (cases n)
    case 0
    then show ?thesis using join_split_on [of "CHR '':''" "x # xs"] by simp
  next
    case (Suc m)
    show ?thesis
    proof (cases "x = CHR '':''")
      case True
      then show ?thesis using Suc Cons.IH [of m] by simp
    next
      case False
      then show ?thesis using Suc sp Cons.IH [of "Suc m"] by simp
    qed
  qed
qed

lemma lint_code_issues:
  "set (lint_code pylint_output) =
     {i. \<exists>line \<in> set (splitlines pylint_output). parse_report_line line = Some i}"
  by (simp add: lint_code_def set_map_filter_eq)

text \<open>
  Claim C7, amended. A report line with at least three colon-separated fields gives an
  issue whose path, line and type are the first three fields and whose message is the
  text after the third colon, colons included, with the white space at its two ends
  removed. A line with no colon gives no issue.
\<close>

theorem parse_report_line_fields:
  "(3 \<le> length (split_on CHR '':'' line) \<longrightarrow>
      parse_report_line line =
        Some \<lparr>issue_path = split_on CHR '':'' line ! 0,
              issue_line = split_on CHR '':'' line ! 1,
              issue_type = split_on CHR '':'' line ! 2,
              issue_message = strip (after_colons 3 line)\<rparr>)
   \<and> (CHR '':'' \<notin> set line \<longrightarrow> parse_report_line line = None)"
proof (intro conjI impI)
  assume l: "3 \<le> length (split_on CHR '':'' line)"
  have "CHR '':'' \<in> set line"
  proof (rule ccontr)
    assume "CHR '':'' \<notin> set line"
    then have "split_on CHR '':'' line = [line]" by (rule split_on_no_separator)
    then show False using l by simp
  qed
  then show "parse_report_line line =
        Some \<lparr>issue_path = split_on CHR '':'' line ! 0,
              issue_line = split_on CHR '':'' line ! 1,
              issue_type = split_on CHR '':'' line ! 2,
              issue_message = strip (after_colons 3 line)\<rparr>"
    using l by (simp add: parse_report_line_def Let_def join_drop_split_on)
next
  assume "CHR '':'' \<notin> set line"
  then show "parse_report_line line = None" by (simp add: parse_report_line_def)
qed

text \<open>A line of a report, and the header line pylint prints before them.\<close>

lemma strip_report_tail:
  "strip '' C0114: Missing module docstring (missing-module-docstring)''
     = ''C0114: Missing module docstring (missing-module-docstring)''"
  by code_simp

lemma split_report_line:
  "split_on CHR '':'' report_line =
     [''m.py'', ''1'', ''0'', '' C0114'', '' Missing module docstring (missing-module-docstring)'']"
  by code_simp

lemma after_colons_report_line:
  "after_colons 3 report_line
     = '' C0114: Missing module docstring (missing-module-docstring)''"
  by code_simp

lemma no_colon_in_header: "CHR '':'' \<notin> set ''************* Module m''"
  by simp

theorem parse_report_line_fields_witness:
  "parse_report_line report_line =
     Some \<lparr>issue_path = ''m.py'', issue_line = ''1'', issue_type = ''0'',
           issue_message = ''C0114: Missing module docstring (missing-module-docstring)''\<rparr>
   \<and> parse_report_line ''************* Module m'' = None"
  using parse_report_line_fields [of report_line]
    parse_report_line_fields [of "''************* Module m''"] no_colon_in_header
  by (simp only: split_report_line after_colons_report_line strip_report_tail) simp

text \<open>
  Claim C7 as stated fails on that line: the text after the third colon starts with a
  space, and the message does not, because the source applies \<open>strip()\<close> to it.
\<close>

theorem lint_message_is_stripped:
  "map_option issue_message (parse_report_line report_line)
     = Some ''C0114: Missing module docstring (missing-module-docstring)''
   \<and> after_colons 3 report_line
     = '' C0114: Missing module docstring (missing-module-docstring)''
   \<and> map_option issue_message (parse_report_line report_line)
     \<noteq> Some (after_colons 3 report_line)"
  by code_simp

subsection \<open>Formatting\<close>








end
